theory Spec2Isabelle
  imports Main "HOL-Library.Sublist"
begin

section \<open>The \<open>bats_api\<close> extension module (BATSPythonAPI.cpp)\<close>

text \<open>
  The source file is one function, the body of \<^verbatim>\<open>BOOST_PYTHON_MODULE(bats_api)\<close>:
  \<^verbatim>\<open>
  BOOST_PYTHON_MODULE(bats_api)
  {
      PyEval_InitThreads(); // need this to mess around with GIL

      BATSTradingStatusMsg::export_to_python();
      BATSTradeMsg::export_to_python();
      BATSRetailPriceImproveMsg::export_to_python();
  }
  \<close>
  Four call statements in sequence, no branch, no loop, no \<^verbatim>\<open>try\<close>. The four callees
  are not in the source file: \<^verbatim>\<open>PyEval_InitThreads\<close> is CPython's, the three
  \<^verbatim>\<open>export_to_python\<close> routines belong to the message classes declared in the
  included headers. The embedding therefore takes the callees as parameters and threads
  an explicit state through the calls.
\<close>

subsection \<open>Data\<close>

text \<open>The three message classes whose headers the file includes, in include order.\<close>

datatype msg_class = BATSTradingStatusMsg | BATSTradeMsg | BATSRetailPriceImproveMsg

text \<open>A call made by the body: which callee, and for an export, of which class.\<close>

datatype call = Call_PyEval_InitThreads | Call_export_to_python msg_class

text \<open>
  The state the body runs in: \<open>world\<close> is everything the callees can read or change
  (interpreter, module namespace, anything else in the process), of a type the body
  knows nothing about; \<open>calls\<close> is the log of the calls the body has made so far,
  oldest first.
\<close>

record 'w host =
  world :: 'w
  calls :: "call list"

text \<open>
  The callees. \<^verbatim>\<open>PyEval_InitThreads\<close> is a C function returning \<^verbatim>\<open>void\<close>: it
  changes the world and cannot throw. An export routine is a C++ \<^verbatim>\<open>static void\<close>
  function without arguments: it changes the world and either returns (\<open>None\<close>) or
  throws an exception \<open>e\<close> (\<open>Some e\<close>); in both cases the second component is the
  world as the routine left it. The callees are assumed to come back (return or throw).
\<close>

record ('e, 'w) externals =
  PyEval_InitThreads :: "'w \<Rightarrow> 'w"
  export_to_python :: "msg_class \<Rightarrow> 'w \<Rightarrow> 'e option \<times> 'w"

subsection \<open>Statements\<close>

text \<open>An expression statement calling a function that cannot throw.\<close>

definition call_noexcept :: "call \<Rightarrow> ('w \<Rightarrow> 'w) \<Rightarrow> 'w host \<Rightarrow> 'e option \<times> 'w host" where
  "call_noexcept c f h = (None, \<lparr>world = f (world h), calls = calls h @ [c]\<rparr>)"

text \<open>An expression statement calling a \<^verbatim>\<open>void\<close> function that may throw.\<close>

definition call_void :: "call \<Rightarrow> ('w \<Rightarrow> 'e option \<times> 'w) \<Rightarrow> 'w host \<Rightarrow> 'e option \<times> 'w host" where
  "call_void c f h =
     (case f (world h) of (r, w') \<Rightarrow> (r, \<lparr>world = w', calls = calls h @ [c]\<rparr>))"

text \<open>
  Statement sequencing \<^verbatim>\<open>p; q\<close> without a handler: when \<open>p\<close> throws, \<open>q\<close> is
  not run and the exception leaves the sequence, with the state \<open>p\<close> left behind.
\<close>

definition seq :: "('w host \<Rightarrow> 'e option \<times> 'w host) \<Rightarrow> ('w host \<Rightarrow> 'e option \<times> 'w host)
    \<Rightarrow> 'w host \<Rightarrow> 'e option \<times> 'w host" where
  "seq p q h = (case p h of (None, h') \<Rightarrow> q h' | (Some e, h') \<Rightarrow> (Some e, h'))"

subsection \<open>The module initialization body\<close>

text \<open>
  \<^verbatim>\<open>BOOST_PYTHON_MODULE(bats_api) { ... }\<close> defines the function
  \<^verbatim>\<open>init_module_bats_api\<close> with the braces as its body (lines 11 to 17).
\<close>

definition init_module_bats_api :: "('e, 'w) externals \<Rightarrow> 'w host \<Rightarrow> 'e option \<times> 'w host" where
  "init_module_bats_api X =
     seq (call_noexcept Call_PyEval_InitThreads (PyEval_InitThreads X))
    (seq (call_void (Call_export_to_python BATSTradingStatusMsg)
            (export_to_python X BATSTradingStatusMsg))
    (seq (call_void (Call_export_to_python BATSTradeMsg)
            (export_to_python X BATSTradeMsg))
         (call_void (Call_export_to_python BATSRetailPriceImproveMsg)
            (export_to_python X BATSRetailPriceImproveMsg))))"

text \<open>The calls one load makes: the log of a run of the body that starts with an empty log.\<close>

definition load_calls :: "('e, 'w) externals \<Rightarrow> 'w \<Rightarrow> call list" where
  "load_calls X w = calls (snd (init_module_bats_api X \<lparr>world = w, calls = []\<rparr>))"


subsection \<open>The callees that are really applied\<close>

text \<open>
  The log \<open>calls\<close> is written by the call statements. What the callees themselves see
  is observed by letting them keep their own record: \<open>recording X\<close> behaves as \<open>X\<close>
  on the first component of the world, and each of its callees, when it is applied,
  appends its own name to the second component. A callee that is not applied leaves no
  entry, one applied twice leaves two, and the entry is the callee's, whatever the call
  statement says.
\<close>

definition recording :: "('e, 'w) externals \<Rightarrow> ('e, 'w \<times> call list) externals" where
  "recording X =
     \<lparr>PyEval_InitThreads =
        (\<lambda>(w, tr). (PyEval_InitThreads X w, tr @ [Call_PyEval_InitThreads])),
      export_to_python =
        (\<lambda>t (w, tr). case export_to_python X t w of
                        (r, w') \<Rightarrow> (r, (w', tr @ [Call_export_to_python t])))\<rparr>"

text \<open>
  The callees applied during one load in environment \<open>X\<close> from the world \<open>w\<close>, in
  the order of their application.
\<close>

definition invocations :: "('e, 'w) externals \<Rightarrow> 'w \<Rightarrow> call list" where
  "invocations X w =
     snd (world (snd (init_module_bats_api (recording X) \<lparr>world = (w, []), calls = []\<rparr>)))"

subsection \<open>The callees and the module macro, as the specification describes them\<close>

text \<open>
  The interpreter as far as the specification speaks of it: whether thread-safe callback
  dispatch is enabled, the module that is the current registration scope, the namespace
  of each module by name (the registered classes, oldest first), and the rest of the
  process state (\<open>other\<close>: locks, files, whatever else there is).
\<close>

record 'r interp =
  threads_initialized :: bool
  scope :: string
  modules :: "string \<rightharpoonup> msg_class list"
  other :: 'r

definition namespace_of :: "'r interp \<Rightarrow> string \<Rightarrow> msg_class list" where
  "namespace_of w m = (case modules w m of None \<Rightarrow> [] | Some ns \<Rightarrow> ns)"

text \<open>Class \<open>t\<close> is registered in the namespace of the module that is the current scope.\<close>

definition registered :: "msg_class \<Rightarrow> 'r interp \<Rightarrow> bool" where
  "registered t w = (t \<in> set (namespace_of w (scope w)))"

text \<open>
  Modelled from the spec: \<^verbatim>\<open>PyEval_InitThreads\<close> (CPython, not in src/). The
  specification describes its effect as "mutates process-wide interpreter state
  (enables multi-thread-safe callback dispatch)".
\<close>

definition PyEval_InitThreads_spec :: "'r interp \<Rightarrow> 'r interp" where
  "PyEval_InitThreads_spec w = w\<lparr>threads_initialized := True\<rparr>"

text \<open>
  Modelled from the spec: the \<^verbatim>\<open>export_to_python\<close> routines of the three message
  classes (their headers and implementations are not in src/). The specification
  describes an export routine as "a static operation that registers a native type's
  interface into an embedding scripting module" and its effect as "registers new
  symbols into the host module's namespace"; it gives no failure case.
\<close>

definition export_to_python_spec :: "msg_class \<Rightarrow> 'r interp \<Rightarrow> 'e option \<times> 'r interp" where
  "export_to_python_spec t w =
     (None, w\<lparr>modules := (modules w)(scope w \<mapsto> namespace_of w (scope w) @ [t])\<rparr>)"

definition spec_externals :: "('e, 'r interp) externals" where
  "spec_externals =
     \<lparr>PyEval_InitThreads = PyEval_InitThreads_spec, export_to_python = export_to_python_spec\<rparr>"

text \<open>
  Modelled from the spec: the macro \<^verbatim>\<open>BOOST_PYTHON_MODULE\<close> (Boost.Python, not in
  src/). The specification calls the result "a scripting-environment-loadable native
  module" into whose namespace the symbols are registered: loading creates the module
  under the macro's argument as its name, with an empty namespace, makes it the current
  registration scope and runs the body. What the host does with an exception that
  leaves the body is outside the file and is not modelled: the outcome is handed on.
\<close>

definition BOOST_PYTHON_MODULE :: "string \<Rightarrow> ('r interp host \<Rightarrow> 'e option \<times> 'r interp host)
    \<Rightarrow> 'r interp host \<Rightarrow> 'e option \<times> 'r interp host" where
  "BOOST_PYTHON_MODULE name body h =
     body (h\<lparr>world := (world h)\<lparr>scope := name, modules := (modules (world h))(name \<mapsto> [])\<rparr>\<rparr>)"

text \<open>Line 10: the module's load entry point.\<close>

definition PyInit_bats_api :: "('e, 'r interp) externals \<Rightarrow> 'r interp host \<Rightarrow> 'e option \<times> 'r interp host" where
  "PyInit_bats_api X = BOOST_PYTHON_MODULE ''bats_api'' (init_module_bats_api X)"

subsection \<open>Example environments\<close>

text \<open>An interpreter that has loaded nothing, with \<open>r\<close> as the rest of the process state.\<close>

definition idle_interp :: "'r \<Rightarrow> 'r interp" where
  "idle_interp r = \<lparr>threads_initialized = False, scope = [], modules = Map.empty, other = r\<rparr>"

text \<open>
  Callees that behave as the specification describes, except that the export routine
  of class \<open>t0\<close> throws without registering anything.
\<close>

definition export_raises_at :: "msg_class \<Rightarrow> (string, 'r interp) externals" where
  "export_raises_at t0 =
     \<lparr>PyEval_InitThreads = PyEval_InitThreads_spec,
      export_to_python = (\<lambda>t w. if t = t0 then (Some ''error_already_set'', w)
                                 else export_to_python_spec t w)\<rparr>"

text \<open>
  Callees that behave as the specification describes, except that an export routine
  throws, registering nothing, when its class is already registered in the current
  module.
\<close>

definition export_refuses_duplicate :: "(string, 'r interp) externals" where
  "export_refuses_duplicate =
     \<lparr>PyEval_InitThreads = PyEval_InitThreads_spec,
      export_to_python = (\<lambda>t w. if registered t w then (Some ''already registered'', w)
                                 else export_to_python_spec t w)\<rparr>"

section \<open>Properties\<close>

subsection \<open>The runs of the body\<close>

text \<open>
  The body has four possible runs: an exception from the first, second or third export,
  or none. Each run is determined by the results of the callees.
\<close>

lemma init_module_bats_api_runs:
  "init_module_bats_api X h =
     (let w1 = PyEval_InitThreads X (world h);
          l1 = calls h @ [Call_PyEval_InitThreads];
          l2 = l1 @ [Call_export_to_python BATSTradingStatusMsg];
          l3 = l2 @ [Call_export_to_python BATSTradeMsg];
          l4 = l3 @ [Call_export_to_python BATSRetailPriceImproveMsg]
      in case export_to_python X BATSTradingStatusMsg w1 of
           (Some e, w2) \<Rightarrow> (Some e, \<lparr>world = w2, calls = l2\<rparr>)
         | (None, w2) \<Rightarrow>
             (case export_to_python X BATSTradeMsg w2 of
                (Some e, w3) \<Rightarrow> (Some e, \<lparr>world = w3, calls = l3\<rparr>)
              | (None, w3) \<Rightarrow>
                  (case export_to_python X BATSRetailPriceImproveMsg w3 of
                     (r, w4) \<Rightarrow> (r, \<lparr>world = w4, calls = l4\<rparr>))))"
  by (simp add: init_module_bats_api_def seq_def call_noexcept_def call_void_def
      split: prod.splits option.splits)

text \<open>The four logs a load can leave.\<close>

lemma load_calls_cases:
  "load_calls X w \<in>
     {[Call_PyEval_InitThreads, Call_export_to_python BATSTradingStatusMsg],
      [Call_PyEval_InitThreads, Call_export_to_python BATSTradingStatusMsg,
       Call_export_to_python BATSTradeMsg],
      [Call_PyEval_InitThreads, Call_export_to_python BATSTradingStatusMsg,
       Call_export_to_python BATSTradeMsg, Call_export_to_python BATSRetailPriceImproveMsg]}"
  by (auto simp add: load_calls_def init_module_bats_api_runs Let_def
      split: prod.splits option.splits)

lemma load_calls_complete:
  "fst (init_module_bats_api X \<lparr>world = w, calls = []\<rparr>) = None \<Longrightarrow>
   load_calls X w =
     [Call_PyEval_InitThreads, Call_export_to_python BATSTradingStatusMsg,
      Call_export_to_python BATSTradeMsg, Call_export_to_python BATSRetailPriceImproveMsg]"
  by (auto simp add: load_calls_def init_module_bats_api_runs Let_def
      split: prod.splits option.splits)

subsection \<open>The record of the callees\<close>

text \<open>
  Recording changes nothing: the recording environment gives the body the same outcome
  and the same world as the environment it records.
\<close>

lemma recording_faithful:
  "fst (init_module_bats_api (recording X) \<lparr>world = (w, tr), calls = l\<rparr>)
     = fst (init_module_bats_api X \<lparr>world = w, calls = l\<rparr>)
   \<and> fst (world (snd (init_module_bats_api (recording X) \<lparr>world = (w, tr), calls = l\<rparr>)))
     = world (snd (init_module_bats_api X \<lparr>world = w, calls = l\<rparr>))"
  by (simp add: init_module_bats_api_runs recording_def Let_def
      split: prod.splits option.splits)

text \<open>
  The call statements of the body name the callees they apply: what the callees record
  of themselves is what the call statements log.
\<close>

lemma invocations_load_calls: "invocations X w = load_calls X w"
  by (simp add: invocations_def load_calls_def init_module_bats_api_runs recording_def Let_def
      split: prod.splits option.splits)

lemma invocations_cases:
  "invocations X w \<in>
     {[Call_PyEval_InitThreads, Call_export_to_python BATSTradingStatusMsg],
      [Call_PyEval_InitThreads, Call_export_to_python BATSTradingStatusMsg,
       Call_export_to_python BATSTradeMsg],
      [Call_PyEval_InitThreads, Call_export_to_python BATSTradingStatusMsg,
       Call_export_to_python BATSTradeMsg, Call_export_to_python BATSRetailPriceImproveMsg]}"
  using load_calls_cases [of X w] by (simp only: invocations_load_calls)

lemma invocations_complete:
  "fst (init_module_bats_api X \<lparr>world = w, calls = []\<rparr>) = None \<Longrightarrow>
   invocations X w =
     [Call_PyEval_InitThreads, Call_export_to_python BATSTradingStatusMsg,
      Call_export_to_python BATSTradeMsg, Call_export_to_python BATSRetailPriceImproveMsg]"
  using load_calls_complete [of X w] by (simp only: invocations_load_calls)

text \<open>The world a load leaves is the world one of the three export routines left.\<close>

lemma world_after_load:
  "world (snd (init_module_bats_api X \<lparr>world = w, calls = l\<rparr>)) \<in>
     {snd (export_to_python X BATSTradingStatusMsg (PyEval_InitThreads X w)),
      snd (export_to_python X BATSTradeMsg
        (snd (export_to_python X BATSTradingStatusMsg (PyEval_InitThreads X w)))),
      snd (export_to_python X BATSRetailPriceImproveMsg
        (snd (export_to_python X BATSTradeMsg
          (snd (export_to_python X BATSTradingStatusMsg (PyEval_InitThreads X w))))))}"
  by (auto simp add: init_module_bats_api_runs Let_def split: prod.splits option.splits)

lemma world_after_complete_load:
  "fst (init_module_bats_api X \<lparr>world = w, calls = l\<rparr>) = None \<Longrightarrow>
   world (snd (init_module_bats_api X \<lparr>world = w, calls = l\<rparr>)) =
     snd (export_to_python X BATSRetailPriceImproveMsg
       (snd (export_to_python X BATSTradeMsg
         (snd (export_to_python X BATSTradingStatusMsg (PyEval_InitThreads X w))))))"
  by (auto simp add: init_module_bats_api_runs Let_def split: prod.splits option.splits)

subsection \<open>Thread safety first\<close>

text \<open>
  C1. In every load, whatever the callees do and whether or not an export throws,
  \<^verbatim>\<open>PyEval_InitThreads\<close> is applied exactly once, and it is the first callee applied:
  every callee applied after it is an export routine. Accordingly the world a load
  leaves is the one an export routine left, and the first export routine was applied to
  the world \<^verbatim>\<open>PyEval_InitThreads\<close> returned.
\<close>

theorem init_threads_once_before_exports:
  "count_list (invocations X w) Call_PyEval_InitThreads = 1
   \<and> (\<exists>ts. invocations X w = Call_PyEval_InitThreads # map Call_export_to_python ts)
   \<and> world (snd (init_module_bats_api X \<lparr>world = w, calls = []\<rparr>)) \<in>
       {snd (export_to_python X BATSTradingStatusMsg (PyEval_InitThreads X w)),
        snd (export_to_python X BATSTradeMsg
          (snd (export_to_python X BATSTradingStatusMsg (PyEval_InitThreads X w)))),
        snd (export_to_python X BATSRetailPriceImproveMsg
          (snd (export_to_python X BATSTradeMsg
            (snd (export_to_python X BATSTradingStatusMsg (PyEval_InitThreads X w))))))}"
proof -
  consider
      "invocations X w = [Call_PyEval_InitThreads, Call_export_to_python BATSTradingStatusMsg]"
    | "invocations X w = [Call_PyEval_InitThreads, Call_export_to_python BATSTradingStatusMsg,
         Call_export_to_python BATSTradeMsg]"
    | "invocations X w = [Call_PyEval_InitThreads, Call_export_to_python BATSTradingStatusMsg,
         Call_export_to_python BATSTradeMsg, Call_export_to_python BATSRetailPriceImproveMsg]"
    using invocations_cases [of X w] by blast
  then have "count_list (invocations X w) Call_PyEval_InitThreads = 1
      \<and> (\<exists>ts. invocations X w = Call_PyEval_InitThreads # map Call_export_to_python ts)"
  proof cases
    case 1
    then show ?thesis
      by (auto intro: exI [of _ "[BATSTradingStatusMsg]"])
  next
    case 2
    then show ?thesis
      by (auto intro: exI [of _ "[BATSTradingStatusMsg, BATSTradeMsg]"])
  next
    case 3
    then show ?thesis
      by (auto intro: exI [of _ "[BATSTradingStatusMsg, BATSTradeMsg, BATSRetailPriceImproveMsg]"])
  qed
  then show ?thesis
    using world_after_load [of X w "[]"] by blast
qed

subsection \<open>Every export, once\<close>

text \<open>
  C2. In no load is an export routine applied more than once, and when the body
  completes (no exception leaves it) each of the three export routines has been applied
  exactly once, none skipped: the world the load leaves is the world obtained by
  applying \<^verbatim>\<open>PyEval_InitThreads\<close> and then the three export routines, each once.
\<close>

theorem each_export_once:
  "count_list (invocations X w) (Call_export_to_python t) \<le> 1
   \<and> (fst (init_module_bats_api X \<lparr>world = w, calls = []\<rparr>) = None
        \<longrightarrow> count_list (invocations X w) (Call_export_to_python t) = 1
          \<and> world (snd (init_module_bats_api X \<lparr>world = w, calls = []\<rparr>)) =
              snd (export_to_python X BATSRetailPriceImproveMsg
                (snd (export_to_python X BATSTradeMsg
                  (snd (export_to_python X BATSTradingStatusMsg (PyEval_InitThreads X w)))))))"
proof -
  have "count_list (invocations X w) (Call_export_to_python t) \<le> 1"
    using invocations_cases [of X w] by (cases t) auto
  moreover have "count_list (invocations X w) (Call_export_to_python t) = 1"
    if "fst (init_module_bats_api X \<lparr>world = w, calls = []\<rparr>) = None"
    using invocations_complete [OF that] by (cases t) simp_all
  ultimately show ?thesis
    using world_after_complete_load [of X w "[]"] by blast
qed

theorem each_export_once_witness:
  "fst (init_module_bats_api (spec_externals :: (string, nat interp) externals)
          \<lparr>world = idle_interp 0, calls = []\<rparr>) = None
   \<and> count_list (invocations (spec_externals :: (string, nat interp) externals) (idle_interp 0))
        (Call_export_to_python BATSTradeMsg) = 1"
  using each_export_once
    [of "spec_externals :: (string, nat interp) externals" "idle_interp 0" BATSTradeMsg]
  by (simp add: init_module_bats_api_runs Let_def spec_externals_def export_to_python_spec_def)

subsection \<open>Order of the exports\<close>




subsection \<open>Exceptions leave the body as they are\<close>



subsection \<open>What a load changes\<close>

text \<open>
  C7. The body has no effect of its own: whatever can be observed of the world (\<open>obs\<close>:
  a lock, a file, a pending cancellation, any other part of the state) and is left
  alone by \<^verbatim>\<open>PyEval_InitThreads\<close> and by the export routines is left alone by the
  load. With the callees as the specification describes them, the world after the load
  is the world before it with thread-safe dispatch enabled and the three classes
  appended to the namespace of the current module; every other part is unchanged.
\<close>

theorem init_side_effects:
  "((\<forall>w. obs (PyEval_InitThreads (X :: ('e, 'w) externals) w) = obs w)
      \<and> (\<forall>t w. obs (snd (export_to_python X t w)) = obs w)
      \<longrightarrow> obs (world (snd (init_module_bats_api X h))) = obs (world h))
   \<and> world (snd (init_module_bats_api (spec_externals :: ('e, 'r interp) externals) g)) =
       (world g)\<lparr>threads_initialized := True,
                 modules := (modules (world g))
                   (scope (world g) \<mapsto> namespace_of (world g) (scope (world g)) @
                      [BATSTradingStatusMsg, BATSTradeMsg, BATSRetailPriceImproveMsg])\<rparr>"
proof -
  have "obs (world (snd (init_module_bats_api X h))) = obs (world h)"
    if i: "\<forall>w. obs (PyEval_InitThreads X w) = obs w"
      and e: "\<forall>t w. obs (snd (export_to_python X t w)) = obs w"
  proof -
    have s: "obs w' = obs w" if "export_to_python X t w = (r, w')" for t w r w'
      using e [rule_format, of t w] that by simp
    show ?thesis
      by (auto simp add: init_module_bats_api_runs Let_def i split: prod.splits option.splits
          dest!: s)
  qed
  moreover have "world (snd (init_module_bats_api spec_externals g)) =
       (world g)\<lparr>threads_initialized := True,
                 modules := (modules (world g))
                   (scope (world g) \<mapsto> namespace_of (world g) (scope (world g)) @
                      [BATSTradingStatusMsg, BATSTradeMsg, BATSRetailPriceImproveMsg])\<rparr>"
    by (simp add: init_module_bats_api_runs Let_def spec_externals_def
        export_to_python_spec_def PyEval_InitThreads_spec_def namespace_of_def)
  ultimately show ?thesis by blast
qed

text \<open>The rest of the process state, here the number 42, as the observation.\<close>

theorem init_side_effects_witness:
  "(\<forall>w :: nat interp.
      other (PyEval_InitThreads (spec_externals :: (string, nat interp) externals) w) = other w)
   \<and> (\<forall>t (w :: nat interp).
        other (snd (export_to_python (spec_externals :: (string, nat interp) externals) t w))
          = other w)
   \<and> other (world (snd (init_module_bats_api
        (spec_externals :: (string, nat interp) externals)
        \<lparr>world = idle_interp 42, calls = []\<rparr>))) = 42"
proof -
  have i: "\<forall>w :: nat interp.
      other (PyEval_InitThreads (spec_externals :: (string, nat interp) externals) w) = other w"
    by (simp add: spec_externals_def PyEval_InitThreads_spec_def)
  have e: "\<forall>t (w :: nat interp).
      other (snd (export_to_python (spec_externals :: (string, nat interp) externals) t w))
        = other w"
    by (simp add: spec_externals_def export_to_python_spec_def)
  show ?thesis
    using i e init_side_effects
      [of other "spec_externals :: (string, nat interp) externals"
          "\<lparr>world = idle_interp 42, calls = []\<rparr>"
          "\<lparr>world = idle_interp (42::nat), calls = []\<rparr>"]
    by (simp add: idle_interp_def)
qed

subsection \<open>The namespace of the loaded module\<close>

text \<open>
  C5. With the callees and the module macro as the specification describes them, a load
  completes and the namespace of the module it has created holds the three message
  classes, each once, and nothing else.
\<close>

theorem module_surface_is_three_classes:
  "fst (PyInit_bats_api spec_externals h) = None
   \<and> namespace_of (world (snd (PyInit_bats_api spec_externals h)))
        (scope (world (snd (PyInit_bats_api spec_externals h))))
      = [BATSTradingStatusMsg, BATSTradeMsg, BATSRetailPriceImproveMsg]"
  by (simp add: PyInit_bats_api_def BOOST_PYTHON_MODULE_def init_module_bats_api_runs Let_def
      spec_externals_def export_to_python_spec_def PyEval_InitThreads_spec_def namespace_of_def)

text \<open>
  C8. With the callees and the module macro as the specification describes them, the
  module a load creates is the one named \<^verbatim>\<open>bats_api\<close>: after the load the table of
  modules differs from the one before only at that name, where the three message
  classes are found.
\<close>

theorem module_registered_as_bats_api:
  "scope (world (snd (PyInit_bats_api spec_externals h))) = ''bats_api''
   \<and> modules (world (snd (PyInit_bats_api spec_externals h))) =
        (modules (world h))(''bats_api'' \<mapsto>
           [BATSTradingStatusMsg, BATSTradeMsg, BATSRetailPriceImproveMsg])"
  by (simp add: PyInit_bats_api_def BOOST_PYTHON_MODULE_def init_module_bats_api_runs Let_def
      spec_externals_def export_to_python_spec_def PyEval_InitThreads_spec_def namespace_of_def)

subsection \<open>Determinism\<close>

text \<open>
  C9, as stated, fails: the callees applied depend on the environment and on the prior
  state. From the same prior state, a load in which the trading status export throws
  applies other callees than a load in which no export throws; and in one and the same
  environment, whose export routines refuse a class that is already registered, a load
  from a fresh interpreter applies other callees than a load from an interpreter in
  which the trading status class is registered.
\<close>

theorem load_calls_deterministic_counterexample:
  "invocations (export_raises_at BATSTradingStatusMsg) (idle_interp (0::nat))
     \<noteq> invocations (spec_externals :: (string, nat interp) externals) (idle_interp 0)
   \<and> invocations export_refuses_duplicate (idle_interp (0::nat))
     \<noteq> invocations export_refuses_duplicate
         ((idle_interp (0::nat))\<lparr>modules := [[] \<mapsto> [BATSTradingStatusMsg]]\<rparr>)"
  by (simp add: invocations_load_calls load_calls_def init_module_bats_api_runs Let_def
      export_raises_at_def export_refuses_duplicate_def spec_externals_def
      export_to_python_spec_def PyEval_InitThreads_spec_def registered_def namespace_of_def
      idle_interp_def)

text \<open>
  C9, amended. Two loads that complete, in any two environments \<open>X1\<close>, \<open>X2\<close> and
  from any two prior states \<open>w1\<close>, \<open>w2\<close>, apply the same callees in the same order:
  \<^verbatim>\<open>PyEval_InitThreads\<close>, then the three exports. Of any two loads at all, the
  callees applied by one are an initial part of those applied by the other: a load
  stopped by an exception applied the same callees as far as it went.
\<close>

theorem load_calls_deterministic:
  "(fst (init_module_bats_api X1 \<lparr>world = w1, calls = []\<rparr>) = None
     \<and> fst (init_module_bats_api X2 \<lparr>world = w2, calls = []\<rparr>) = None
     \<longrightarrow> invocations X1 w1 = invocations X2 w2
         \<and> invocations X1 w1 =
             [Call_PyEval_InitThreads, Call_export_to_python BATSTradingStatusMsg,
              Call_export_to_python BATSTradeMsg,
              Call_export_to_python BATSRetailPriceImproveMsg])
   \<and> (prefix (invocations X1 w1) (invocations X2 w2)
        \<or> prefix (invocations X2 w2) (invocations X1 w1))"
proof -
  have "invocations X1 w1 = invocations X2 w2
      \<and> invocations X1 w1 =
             [Call_PyEval_InitThreads, Call_export_to_python BATSTradingStatusMsg,
              Call_export_to_python BATSTradeMsg,
              Call_export_to_python BATSRetailPriceImproveMsg]"
    if "fst (init_module_bats_api X1 \<lparr>world = w1, calls = []\<rparr>) = None"
      and "fst (init_module_bats_api X2 \<lparr>world = w2, calls = []\<rparr>) = None"
    using invocations_complete [OF that(1)] invocations_complete [OF that(2)] by simp
  moreover have "prefix (invocations X1 w1) (invocations X2 w2)
      \<or> prefix (invocations X2 w2) (invocations X1 w1)"
    using invocations_cases [of X1 w1] invocations_cases [of X2 w2] by auto
  ultimately show ?thesis by blast
qed

text \<open>
  Two loads from different prior states: a fresh interpreter, and one in which thread
  safety is already enabled and another module is the current scope.
\<close>

theorem load_calls_deterministic_witness:
  "fst (init_module_bats_api (spec_externals :: (string, nat interp) externals)
          \<lparr>world = idle_interp 0, calls = []\<rparr>) = None
   \<and> fst (init_module_bats_api (spec_externals :: (string, nat interp) externals)
          \<lparr>world = (idle_interp 1)\<lparr>threads_initialized := True, scope := ''m''\<rparr>,
           calls = []\<rparr>) = None
   \<and> invocations (spec_externals :: (string, nat interp) externals) (idle_interp 0)
       = invocations (spec_externals :: (string, nat interp) externals)
           ((idle_interp 1)\<lparr>threads_initialized := True, scope := ''m''\<rparr>)"
  using load_calls_deterministic
    [of "spec_externals :: (string, nat interp) externals" "idle_interp 0"
        "spec_externals :: (string, nat interp) externals"
        "(idle_interp 1)\<lparr>threads_initialized := True, scope := ''m''\<rparr>"]
  by (simp add: init_module_bats_api_runs Let_def spec_externals_def export_to_python_spec_def)

subsection \<open>A failed load is not undone\<close>

text \<open>
  C10. Nothing is rolled back when a load fails. Let \<open>P\<close> be any property of the world
  that the export routines do not themselves undo (such as: thread-safe dispatch is
  enabled, or: a certain class is registered). If the second export throws, then \<open>P\<close>,
  once true after the first export, is true in the world the failed load leaves; if
  the third export throws, the same holds for \<open>P\<close> true after the first or after the
  second export.
\<close>

theorem failed_load_keeps_earlier_effects:
  assumes "\<forall>t w. P w \<longrightarrow> P (snd (export_to_python X t w))"
  shows
  "(let w1 = PyEval_InitThreads X (world h);
        r1 = fst (export_to_python X BATSTradingStatusMsg w1);
        w2 = snd (export_to_python X BATSTradingStatusMsg w1);
        r2 = fst (export_to_python X BATSTradeMsg w2);
        w3 = snd (export_to_python X BATSTradeMsg w2);
        r3 = fst (export_to_python X BATSRetailPriceImproveMsg w3);
        out = fst (init_module_bats_api X h);
        wf = world (snd (init_module_bats_api X h))
    in (r1 = None \<and> r2 = Some e \<and> P w2 \<longrightarrow> out = Some e \<and> P wf)
     \<and> (r1 = None \<and> r2 = None \<and> r3 = Some e \<and> (P w2 \<or> P w3) \<longrightarrow> out = Some e \<and> P wf))"
proof -
  have st: "P w'" if "export_to_python X t w = (r, w')" and "P w" for t w r w'
    using assms that by (metis snd_conv)
  show ?thesis
    by (auto simp add: init_module_bats_api_runs Let_def split: prod.splits option.splits)
      (blast intro: st)+
qed

text \<open>
  The trade export throws, and the retail price improvement export throws: in both
  loads, from an interpreter where neither holds, thread safety is enabled and the
  trading status class is registered afterwards.
\<close>

theorem failed_load_keeps_earlier_effects_witness:
  "\<not> threads_initialized (idle_interp (0::nat))
   \<and> \<not> registered BATSTradingStatusMsg (idle_interp (0::nat))
   \<and> fst (init_module_bats_api (export_raises_at BATSTradeMsg)
            \<lparr>world = idle_interp (0::nat), calls = []\<rparr>) = Some ''error_already_set''
   \<and> threads_initialized (world (snd (init_module_bats_api (export_raises_at BATSTradeMsg)
            \<lparr>world = idle_interp (0::nat), calls = []\<rparr>)))
   \<and> registered BATSTradingStatusMsg
        (world (snd (init_module_bats_api (export_raises_at BATSTradeMsg)
            \<lparr>world = idle_interp (0::nat), calls = []\<rparr>)))
   \<and> fst (init_module_bats_api (export_raises_at BATSRetailPriceImproveMsg)
            \<lparr>world = idle_interp (0::nat), calls = []\<rparr>) = Some ''error_already_set''
   \<and> threads_initialized (world (snd (init_module_bats_api
            (export_raises_at BATSRetailPriceImproveMsg)
            \<lparr>world = idle_interp (0::nat), calls = []\<rparr>)))
   \<and> registered BATSTradingStatusMsg
        (world (snd (init_module_bats_api (export_raises_at BATSRetailPriceImproveMsg)
            \<lparr>world = idle_interp (0::nat), calls = []\<rparr>)))"
proof -
  let ?P = "\<lambda>w :: nat interp. threads_initialized w \<and> registered BATSTradingStatusMsg w"
  let ?h = "\<lparr>world = idle_interp (0::nat), calls = []\<rparr>"
  have st: "\<forall>t w. ?P w \<longrightarrow> ?P (snd (export_to_python (export_raises_at t0) t w))" for t0
    by (simp add: export_raises_at_def export_to_python_spec_def registered_def
        namespace_of_def)
  have before: "\<not> threads_initialized (idle_interp (0::nat))"
    "\<not> registered BATSTradingStatusMsg (idle_interp (0::nat))"
    by (simp_all add: idle_interp_def registered_def namespace_of_def)
  show ?thesis
    using before
      failed_load_keeps_earlier_effects
        [of ?P "export_raises_at BATSTradeMsg" ?h "''error_already_set''", OF st]
      failed_load_keeps_earlier_effects
        [of ?P "export_raises_at BATSRetailPriceImproveMsg" ?h "''error_already_set''", OF st]
    by (simp add: Let_def export_raises_at_def export_to_python_spec_def
        PyEval_InitThreads_spec_def registered_def namespace_of_def idle_interp_def)
qed

end
